theory Spec2Isabelle
  imports Complex_Main
begin

section \<open>The manual Voronoi plot of \<open>notebooks/matplotlib_SciPy.ipynb\<close>\<close>

text \<open>
  The notebook's fifth code cell draws the finite edges of a Voronoi diagram:
  \<^verbatim>\<open>
  for edge in vor_ridges:
      if -1 in edge:
          continue
      edge_start = vor_vertices[edge[0]]
      edge_end = vor_vertices[edge[1]]
      ax_manual.plot([edge_start[0], edge_end[0]], # the two x coords
                     [edge_start[1], edge_end[1]], # the two y coords
                     color='black')
  \<close>
  \<open>vor_vertices\<close> is an array of shape \<open>(n, 2)\<close>, modelled as a list of coordinate pairs;
  the loop only moves coordinates around, so their type is a parameter. \<open>vor_ridges\<close> is
  a Python list of lists of integers. The axes object is the state of the loop: the list
  of the lines plotted so far, each line a pair of points.
\<close>

subsection \<open>Data\<close>

datatype py_error = IndexError | OverflowError

type_synonym 'a point = "'a \<times> 'a"
type_synonym 'a segment = "'a point \<times> 'a point"
type_synonym ridge = "int list"

subsection \<open>Indexing\<close>

text \<open>
  \<open>a[k]\<close> on a Python list, as in \<open>edge[0]\<close> and \<open>edge[1]\<close>: an index from \<open>-len\<close> up to \<open>-1\<close>
  counts from the end, and an index outside \<open>-len \<le> k < len\<close> raises \<open>IndexError\<close>.
\<close>

definition getitem :: "'b list \<Rightarrow> int \<Rightarrow> py_error + 'b" where
  "getitem a k =
     (if - int (length a) \<le> k \<and> k < int (length a)
      then Inr (a ! nat (if k < 0 then k + int (length a) else k))
      else Inl IndexError)"

text \<open>
  \<open>a[k]\<close> on the first axis of a NumPy array, as in \<open>vor_vertices[edge[0]]\<close>, with \<open>k\<close> a
  Python integer. Within \<open>-len \<le> k < len\<close> it reads as a list does. Outside, the array
  raises \<open>IndexError\<close>, except for \<open>2^63 \<le> k < 2^64\<close>, where the conversion of \<open>k\<close> to the
  64-bit index type raises \<open>OverflowError\<close>. An array has fewer than \<open>2^63\<close> rows, so no
  index of that interval is ever in range.
\<close>

definition np_getitem :: "'b list \<Rightarrow> int \<Rightarrow> py_error + 'b" where
  "np_getitem a k =
     (if - int (length a) \<le> k \<and> k < int (length a)
      then Inr (a ! nat (if k < 0 then k + int (length a) else k))
      else if 2 ^ 63 \<le> k \<and> k < 2 ^ 64 then Inl OverflowError
      else Inl IndexError)"

subsection \<open>The loop\<close>

text \<open>\<open>ax.plot([x0, x1], [y0, y1])\<close> adds the line from \<open>(x0, y0)\<close> to \<open>(x1, y1)\<close> to the axes.\<close>

definition plot :: "'a \<times> 'a \<Rightarrow> 'a \<times> 'a \<Rightarrow> 'a segment list \<Rightarrow> 'a segment list" where
  "plot xs ys ax = ax @ [((fst xs, fst ys), (snd xs, snd ys))]"

text \<open>One iteration of the loop body; \<open>continue\<close> leaves the axes as they are.\<close>

definition plot_edge :: "'a point list \<Rightarrow> ridge \<Rightarrow> 'a segment list \<Rightarrow> py_error + 'a segment list" where
  "plot_edge vor_vertices edge ax =
     (if -1 \<in> set edge then Inr ax
      else
        (case getitem edge 0 of Inl e \<Rightarrow> Inl e | Inr i0 \<Rightarrow>
        (case np_getitem vor_vertices i0 of Inl e \<Rightarrow> Inl e | Inr edge_start \<Rightarrow>
        (case getitem edge 1 of Inl e \<Rightarrow> Inl e | Inr i1 \<Rightarrow>
        (case np_getitem vor_vertices i1 of Inl e \<Rightarrow> Inl e | Inr edge_end \<Rightarrow>
          Inr (plot (fst edge_start, fst edge_end) (snd edge_start, snd edge_end) ax))))))"

text \<open>The \<open>for\<close> loop: an exception raised by an iteration ends the loop.\<close>

fun plot_ridges :: "'a point list \<Rightarrow> ridge list \<Rightarrow> 'a segment list \<Rightarrow> py_error + 'a segment list" where
  "plot_ridges vor_vertices [] ax = Inr ax"
| "plot_ridges vor_vertices (edge # rest) ax =
     (case plot_edge vor_vertices edge ax of
        Inl e \<Rightarrow> Inl e
      | Inr ax' \<Rightarrow> plot_ridges vor_vertices rest ax')"

text \<open>The loop run on axes that hold no line yet: its lines are the segments produced.\<close>

definition render :: "'a point list \<Rightarrow> ridge list \<Rightarrow> py_error + 'a segment list" where
  "render vor_vertices vor_ridges = plot_ridges vor_vertices vor_ridges []"

text \<open>
  The same loop as a machine that performs one iteration per step. A configuration holds
  the ridges the iteration has yet to visit and the axes; the step on an exhausted ridge
  list leaves the loop, and a step that raises ends it.
\<close>

datatype 'a config =
  Running "ridge list" "'a segment list"
| Done "'a segment list"
| Failed py_error

fun step :: "'a point list \<Rightarrow> 'a config \<Rightarrow> 'a config" where
  "step vor_vertices (Running [] ax) = Done ax"
| "step vor_vertices (Running (edge # rest) ax) =
     (case plot_edge vor_vertices edge ax of
        Inl e \<Rightarrow> Failed e
      | Inr ax' \<Rightarrow> Running rest ax')"
| "step vor_vertices (Done ax) = Done ax"
| "step vor_vertices (Failed e) = Failed e"

subsection \<open>Notions used to state the properties\<close>

text \<open>The position an index within \<open>-len \<le> k < len\<close> reads.\<close>

definition wrap :: "'b list \<Rightarrow> int \<Rightarrow> nat" where
  "wrap a k = nat (if k < 0 then k + int (length a) else k)"

definition out_of_bounds :: "'b list \<Rightarrow> int \<Rightarrow> bool" where
  "out_of_bounds a k \<longleftrightarrow> k < - int (length a) \<or> int (length a) \<le> k"

text \<open>The exception the array raises for an index out of bounds.\<close>

definition overflows :: "int \<Rightarrow> bool" where
  "overflows k \<longleftrightarrow> 2 ^ 63 \<le> k \<and> k < 2 ^ 64"

definition np_error :: "int \<Rightarrow> py_error" where
  "np_error k = (if overflows k then OverflowError else IndexError)"

text \<open>A ridge on which an iteration raises, and the exception it raises.\<close>

definition raises :: "'b list \<Rightarrow> ridge \<Rightarrow> bool" where
  "raises a r \<longleftrightarrow>
     -1 \<notin> set r \<and> (length r < 2 \<or> out_of_bounds a (r ! 0) \<or> out_of_bounds a (r ! 1))"

definition edge_error :: "'b list \<Rightarrow> ridge \<Rightarrow> py_error" where
  "edge_error a r =
     (if r = [] then IndexError
      else if out_of_bounds a (r ! 0) then np_error (r ! 0)
      else if length r < 2 then IndexError
      else np_error (r ! 1))"

text \<open>
  The data model of the specification: a valid index, a finite ridge (neither of its two
  entries is the sentinel), a ridge list whose ridges are pairs with every non-sentinel
  index valid, and one segment per finite ridge, in the order of the ridge list.
\<close>

definition valid_index :: "'b list \<Rightarrow> int \<Rightarrow> bool" where
  "valid_index a k \<longleftrightarrow> 0 \<le> k \<and> k < int (length a)"

definition finite_ridge :: "ridge \<Rightarrow> bool" where
  "finite_ridge r \<longleftrightarrow> r ! 0 \<noteq> -1 \<and> r ! 1 \<noteq> -1"

definition well_formed :: "'b list \<Rightarrow> ridge list \<Rightarrow> bool" where
  "well_formed a rs \<longleftrightarrow>
     (\<forall>r \<in> set rs. length r = 2 \<and> (\<forall>k \<in> set r. k \<noteq> -1 \<longrightarrow> valid_index a k))"

definition finite_segments :: "'a point list \<Rightarrow> ridge list \<Rightarrow> 'a segment list" where
  "finite_segments a rs = map (\<lambda>r. (a ! nat (r ! 0), a ! nat (r ! 1))) (filter finite_ridge rs)"

section \<open>Properties\<close>

subsection \<open>One iteration\<close>

lemma getitem_0: "getitem r 0 = (if r = [] then Inl IndexError else Inr (r ! 0))"
  by (simp add: getitem_def)

lemma getitem_1: "getitem r 1 = (if length r < 2 then Inl IndexError else Inr (r ! 1))"
  by (auto simp add: getitem_def)

lemma np_getitem_wrap:
  "np_getitem a k = (if out_of_bounds a k then Inl (np_error k) else Inr (a ! wrap a k))"
  by (auto simp add: np_getitem_def out_of_bounds_def wrap_def np_error_def overflows_def)

lemma plot_points: "plot (fst p, fst q) (snd p, snd q) ax = ax @ [(p, q)]"
  by (simp add: plot_def)

lemma plot_edge_cases:
  "plot_edge V r ax =
     (if -1 \<in> set r then Inr ax
      else if raises V r then Inl (edge_error V r)
      else Inr (ax @ [(V ! wrap V (r ! 0), V ! wrap V (r ! 1))]))"
proof -
  have "plot_edge V r ax =
     (if -1 \<in> set r then Inr ax
      else if r = [] then Inl IndexError
      else (case np_getitem V (r ! 0) of Inl e \<Rightarrow> Inl e | Inr edge_start \<Rightarrow>
        if length r < 2 then Inl IndexError
        else (case np_getitem V (r ! 1) of Inl e \<Rightarrow> Inl e | Inr edge_end \<Rightarrow>
          Inr (ax @ [(edge_start, edge_end)]))))"
    unfolding plot_edge_def getitem_0 getitem_1 plot_points
    by (simp split: sum.splits)
  also have "\<dots> =
     (if -1 \<in> set r then Inr ax
      else if raises V r then Inl (edge_error V r)
      else Inr (ax @ [(V ! wrap V (r ! 0), V ! wrap V (r ! 1))]))"
    by (auto simp add: np_getitem_wrap raises_def edge_error_def)
  finally show ?thesis .
qed

lemma plot_edge_skip: "-1 \<in> set r \<Longrightarrow> plot_edge V r ax = Inr ax"
  by (simp add: plot_edge_cases)

lemma plot_edge_raises: "raises V r \<Longrightarrow> plot_edge V r ax = Inl (edge_error V r)"
  by (simp add: plot_edge_cases raises_def)

lemma np_error_overflow: "np_error k = OverflowError \<longleftrightarrow> overflows k"
  by (simp add: np_error_def)

lemma plot_edge_overflow:
  assumes "plot_edge V r ax = Inl OverflowError"
  shows "\<exists>k \<in> set r. overflows k"
proof -
  from assms have err: "edge_error V r = OverflowError"
    by (simp add: plot_edge_cases split: if_splits)
  then have ne: "r \<noteq> []" by (auto simp add: edge_error_def)
  then have first: "r ! 0 \<in> set r" by simp
  show ?thesis
  proof (cases "overflows (r ! 0)")
    case True
    with first show ?thesis by blast
  next
    case False
    with err ne have "\<not> length r < 2" and "overflows (r ! 1)"
      by (auto simp add: edge_error_def np_error_overflow split: if_splits)
    moreover from this(1) have "r ! 1 \<in> set r" by simp
    ultimately show ?thesis by blast
  qed
qed

lemma plot_edge_draws:
  assumes "-1 \<notin> set r" and "\<not> raises V r"
  shows "plot_edge V r ax = Inr (ax @ [(V ! wrap V (r ! 0), V ! wrap V (r ! 1))])"
  using assms by (simp add: plot_edge_cases)

lemma plot_edge_pair:
  assumes "i \<noteq> -1" and "j \<noteq> -1"
    and "\<not> out_of_bounds V i" and "\<not> out_of_bounds V j"
  shows "plot_edge V [i, j] ax = Inr (ax @ [(V ! wrap V i, V ! wrap V j)])"
proof -
  have "-1 \<notin> set [i, j]" using assms(1,2) by auto
  moreover have "\<not> raises V [i, j]" using assms(3,4) by (simp add: raises_def)
  ultimately show ?thesis using plot_edge_draws [of "[i, j]" V ax] by simp
qed

lemma wrap_valid: "valid_index a k \<Longrightarrow> wrap a k = nat k \<and> \<not> out_of_bounds a k \<and> k \<noteq> -1"
  by (auto simp add: valid_index_def wrap_def out_of_bounds_def)

subsection \<open>The whole loop\<close>

lemma plot_ridges_shift:
  "plot_ridges V R (ax @ bx) =
     (case plot_ridges V R bx of Inl e \<Rightarrow> Inl e | Inr segs \<Rightarrow> Inr (ax @ segs))"
proof (induction R arbitrary: bx)
  case Nil
  show ?case by simp
next
  case (Cons r R)
  consider (skip) "-1 \<in> set r" | (fail) "raises V r" | (draw) "-1 \<notin> set r" "\<not> raises V r"
    by blast
  then show ?case
  proof cases
    case skip
    then show ?thesis using Cons.IH [of bx] by (simp add: plot_edge_skip)
  next
    case fail
    then show ?thesis by (simp add: plot_edge_raises)
  next
    case draw
    let ?s = "(V ! wrap V (r ! 0), V ! wrap V (r ! 1))"
    from draw have "plot_edge V r (ax @ bx) = Inr (ax @ (bx @ [?s]))"
      and "plot_edge V r bx = Inr (bx @ [?s])"
      by (simp_all add: plot_edge_draws)
    then show ?thesis using Cons.IH [of "bx @ [?s]"] by simp
  qed
qed

lemma plot_ridges_append:
  "plot_ridges V (R1 @ R2) ax =
     (case plot_ridges V R1 ax of Inl e \<Rightarrow> Inl e | Inr ax' \<Rightarrow> plot_ridges V R2 ax')"
  by (induction R1 arbitrary: ax) (simp_all split: sum.splits)

lemma plot_ridges_raises:
  "(\<exists>r \<in> set R. raises V r) \<Longrightarrow> \<exists>e. plot_ridges V R ax = Inl e"
proof (induction R arbitrary: ax)
  case Nil
  then show ?case by simp
next
  case (Cons r R)
  show ?case
  proof (cases "plot_edge V r ax")
    case (Inl e)
    then show ?thesis by simp
  next
    case (Inr ax')
    then have "\<not> raises V r" by (auto dest: plot_edge_raises [of V r ax])
    with Cons.prems have "\<exists>r \<in> set R. raises V r" by simp
    then show ?thesis using Inr Cons.IH [of ax'] by simp
  qed
qed

lemma plot_ridges_overflow:
  "plot_ridges V R ax = Inl OverflowError \<Longrightarrow> \<exists>r \<in> set R. \<exists>k \<in> set r. overflows k"
proof (induction R arbitrary: ax)
  case Nil
  then show ?case by simp
next
  case (Cons r R)
  show ?case
  proof (cases "plot_edge V r ax")
    case (Inl e)
    with Cons.prems have "plot_edge V r ax = Inl OverflowError" by simp
    then have "\<exists>k \<in> set r. overflows k" by (rule plot_edge_overflow)
    then show ?thesis by simp
  next
    case (Inr ax')
    with Cons.prems have "plot_ridges V R ax' = Inl OverflowError" by simp
    then have "\<exists>r \<in> set R. \<exists>k \<in> set r. overflows k" by (rule Cons.IH)
    then show ?thesis by simp
  qed
qed

lemma plot_ridges_index_error:
  assumes "\<exists>r \<in> set R. raises V r" and "\<forall>r \<in> set R. \<forall>k \<in> set r. \<not> overflows k"
  shows "plot_ridges V R ax = Inl IndexError"
proof -
  from assms(1) obtain e where e: "plot_ridges V R ax = Inl e"
    using plot_ridges_raises by blast
  show ?thesis
  proof (cases e)
    case IndexError
    with e show ?thesis by simp
  next
    case OverflowError
    with e have "\<exists>r \<in> set R. \<exists>k \<in> set r. overflows k"
      by (simp add: plot_ridges_overflow)
    with assms(2) show ?thesis by blast
  qed
qed

lemma plot_ridges_draws:
  "\<forall>r \<in> set R. \<not> raises V r \<Longrightarrow>
   plot_ridges V R ax =
     Inr (ax @ map (\<lambda>r. (V ! wrap V (r ! 0), V ! wrap V (r ! 1))) (filter (\<lambda>r. -1 \<notin> set r) R))"
proof (induction R arbitrary: ax)
  case Nil
  show ?case by simp
next
  case (Cons r R)
  then have ih: "\<And>ax'. plot_ridges V R ax' =
      Inr (ax' @ map (\<lambda>r. (V ! wrap V (r ! 0), V ! wrap V (r ! 1))) (filter (\<lambda>r. -1 \<notin> set r) R))"
    and ok: "\<not> raises V r"
    by simp_all
  show ?case
  proof (cases "-1 \<in> set r")
    case True
    then show ?thesis by (simp add: plot_edge_skip ih)
  next
    case False
    then show ?thesis using ok by (simp add: plot_edge_draws ih)
  qed
qed

lemma plot_ridges_length:
  "plot_ridges V R ax = Inr ax' \<Longrightarrow> length ax' \<le> length ax + length R"
proof (induction R arbitrary: ax)
  case Nil
  then show ?case by simp
next
  case (Cons r R)
  from Cons.prems obtain bx where step: "plot_edge V r ax = Inr bx"
    and rest: "plot_ridges V R bx = Inr ax'"
    by (auto split: sum.splits)
  from step have "length bx \<le> Suc (length ax)"
    by (auto simp add: plot_edge_cases split: if_splits)
  moreover from rest have "length ax' \<le> length bx + length R" by (rule Cons.IH)
  ultimately show ?case by simp
qed

lemma render_append:
  assumes "render V R1 = Inr s1" and "render V R2 = Inr s2"
  shows "render V (R1 @ R2) = Inr (s1 @ s2)"
proof -
  have "plot_ridges V R2 (s1 @ []) = Inr (s1 @ s2)"
    using assms(2) unfolding render_def plot_ridges_shift by simp
  then show ?thesis
    using assms(1) by (simp add: render_def plot_ridges_append)
qed

lemma render_single: "render V [r] = plot_edge V r []"
  by (simp add: render_def split: sum.splits)

lemma render_insert:
  assumes "render V R1 = Inr s1" and "plot_edge V r [] = Inr s" and "render V R2 = Inr s2"
  shows "render V (R1 @ r # R2) = Inr (s1 @ s @ s2)"
proof -
  from assms(2) have "render V [r] = Inr s" by (simp add: render_single)
  then have "render V ([r] @ R2) = Inr (s @ s2)" using assms(3) by (rule render_append)
  with assms(1) have "render V (R1 @ [r] @ R2) = Inr (s1 @ s @ s2)" by (rule render_append)
  then show ?thesis by simp
qed

subsection \<open>The loop as a machine\<close>

lemma step_final:
  "(step V ^^ n) (Done ax) = Done ax"
  "(step V ^^ n) (Failed e) = Failed e"
  by (induction n) simp_all

lemma step_run:
  "(step V ^^ Suc (length R)) (Running R ax) =
     (case plot_ridges V R ax of Inl e \<Rightarrow> Failed e | Inr ax' \<Rightarrow> Done ax')"
proof (induction R arbitrary: ax)
  case Nil
  show ?case by simp
next
  case (Cons r R)
  have "(step V ^^ Suc (length (r # R))) (Running (r # R) ax)
      = (step V ^^ Suc (length R)) (step V (Running (r # R) ax))"
    by (simp only: length_Cons funpow_Suc_right o_apply)
  also have "\<dots> =
      (case plot_ridges V (r # R) ax of Inl e \<Rightarrow> Failed e | Inr ax' \<Rightarrow> Done ax')"
  proof (cases "plot_edge V r ax")
    case (Inl e)
    then show ?thesis by (simp add: step_final del: funpow.simps)
  next
    case (Inr bx)
    then show ?thesis using Cons.IH [of bx] by simp
  qed
  finally show ?case .
qed

subsection \<open>Ridge lists of the data model\<close>

lemma pair_ridge: "length (r :: ridge) = 2 \<Longrightarrow> \<exists>i j. r = [i, j]"
  by (auto simp add: numeral_2_eq_2 length_Suc_conv)

lemma well_formed_ridge:
  assumes "well_formed V R" and "r \<in> set R"
  shows "\<not> raises V r"
    and "finite_ridge r \<longleftrightarrow> -1 \<notin> set r"
    and "-1 \<notin> set r \<Longrightarrow> wrap V (r ! 0) = nat (r ! 0) \<and> wrap V (r ! 1) = nat (r ! 1)"
proof -
  from assms have len: "length r = 2" and ok: "\<forall>k \<in> set r. k \<noteq> -1 \<longrightarrow> valid_index V k"
    by (auto simp add: well_formed_def)
  from len obtain i j where r: "r = [i, j]" using pair_ridge by blast
  show "\<not> raises V r"
    using ok by (auto simp add: r raises_def dest: wrap_valid)
  show "finite_ridge r \<longleftrightarrow> -1 \<notin> set r"
    by (auto simp add: r finite_ridge_def)
  show "-1 \<notin> set r \<Longrightarrow> wrap V (r ! 0) = nat (r ! 0) \<and> wrap V (r ! 1) = nat (r ! 1)"
    using ok by (auto simp add: r dest: wrap_valid)
qed

section \<open>The claims\<close>

text \<open>
  C1. On a vertex set and a ridge list of the data model (every ridge a pair, every
  non-sentinel index valid) the loop does not fail and produces exactly the segments of
  the finite ridges, in the order of the ridge list, the unbounded ridges left out; so
  the number of segments is the number of finite ridges, and an empty ridge list gives
  no segment.
\<close>

theorem render_finite_ridges:
  assumes "well_formed V R"
  shows "render V R = Inr (finite_segments V R)
     \<and> length (finite_segments V R) = length (filter finite_ridge R)
     \<and> render V [] = Inr []"
proof -
  from assms have ok: "\<forall>r \<in> set R. \<not> raises V r"
    by (auto dest: well_formed_ridge(1))
  have sel: "filter (\<lambda>r. -1 \<notin> set r) R = filter finite_ridge R"
    using assms by (intro filter_cong) (auto simp add: well_formed_ridge(2))
  have "map (\<lambda>r. (V ! wrap V (r ! 0), V ! wrap V (r ! 1))) (filter finite_ridge R)
      = finite_segments V R"
    unfolding finite_segments_def
  proof (rule map_cong [OF refl])
    fix r
    assume "r \<in> set (filter finite_ridge R)"
    then have "r \<in> set R" and "finite_ridge r" by simp_all
    with assms have "-1 \<notin> set r" by (simp add: well_formed_ridge(2))
    with assms \<open>r \<in> set R\<close>
    have "wrap V (r ! 0) = nat (r ! 0) \<and> wrap V (r ! 1) = nat (r ! 1)"
      by (rule well_formed_ridge(3))
    then show "(V ! wrap V (r ! 0), V ! wrap V (r ! 1)) = (V ! nat (r ! 0), V ! nat (r ! 1))"
      by simp
  qed
  with ok sel have "render V R = Inr (finite_segments V R)"
    using plot_ridges_draws [of R V "[]"] by (simp add: render_def)
  then show ?thesis by (simp add: finite_segments_def render_def)
qed

theorem render_finite_ridges_witness:
  "well_formed [(0, 0), (2, 0), (2, 3) :: real point] [[2, 0], [1, -1], [0, 1], [-1, -1]]
   \<and> render [(0, 0), (2, 0), (2, 3) :: real point] [[2, 0], [1, -1], [0, 1], [-1, -1]]
       = Inr [((2, 3), (0, 0)), ((0, 0), (2, 0))]
   \<and> length (filter finite_ridge [[2, 0], [1, -1], [0, 1], [-1, -1]]) = 2"
  using render_finite_ridges
    [of "[(0, 0), (2, 0), (2, 3) :: real point]" "[[2, 0], [1, -1], [0, 1], [-1, -1]]"]
  by (simp add: well_formed_def valid_index_def finite_segments_def finite_ridge_def)

text \<open>
  C2. A ridge in which the sentinel \<open>-1\<close> occurs is skipped: its iteration leaves the axes
  unchanged, whatever the other entry is, and the loop gives the same result as on the
  ridge list without that ridge, so the segments of the ridges around it keep their order.
\<close>

theorem unbounded_ridge_skipped:
  assumes "-1 \<in> set r"
  shows "plot_edge V r ax = Inr ax \<and> render V (R1 @ r # R2) = render V (R1 @ R2)"
  using assms by (simp add: render_def plot_ridges_append plot_edge_skip split: sum.splits)

theorem unbounded_ridge_skipped_witness:
  "-1 \<in> set [1, -1 :: int]
   \<and> plot_edge [(0, 0), (2, 0), (2, 3) :: real point] [1, -1] [] = Inr []
   \<and> render [(0, 0), (2, 0), (2, 3) :: real point] ([[0, 1]] @ [1, -1] # [[1, 2]])
       = Inr [((0, 0), (2, 0)), ((2, 0), (2, 3))]"
proof -
  have "render [(0, 0), (2, 0), (2, 3) :: real point] [[0, 1], [1, 2]]
      = Inr [((0, 0), (2, 0)), ((2, 0), (2, 3))]"
    by (simp add: render_def plot_edge_def getitem_def np_getitem_def plot_def)
  then show ?thesis
    using unbounded_ridge_skipped
      [of "[1, -1]" "[(0, 0), (2, 0), (2, 3) :: real point]" "[]" "[[0, 1]]" "[[1, 2]]"]
    by simp
qed

text \<open>
  C3. The iteration on a finite ridge \<open>(i, j)\<close> with valid indices appends the segment from
  vertex \<open>i\<close> to vertex \<open>j\<close>, start and end in the order of the ridge; in the output of the
  loop this segment stands between the segments of the ridges before and after it.
\<close>

theorem finite_ridge_segment:
  assumes "valid_index V i" and "valid_index V j"
    and "render V R1 = Inr s1" and "render V R2 = Inr s2"
  shows "plot_edge V [i, j] ax = Inr (ax @ [(V ! nat i, V ! nat j)])
     \<and> render V (R1 @ [i, j] # R2) = Inr (s1 @ (V ! nat i, V ! nat j) # s2)"
proof -
  from assms(1,2) have step: "plot_edge V [i, j] bx = Inr (bx @ [(V ! nat i, V ! nat j)])" for bx
    using plot_edge_pair [of i j V bx] by (simp add: wrap_valid)
  from step [of "[]"] have "plot_edge V [i, j] [] = Inr [(V ! nat i, V ! nat j)]" by simp
  with assms(3) have "render V (R1 @ [i, j] # R2) = Inr (s1 @ [(V ! nat i, V ! nat j)] @ s2)"
    using assms(4) by (rule render_insert)
  with step [of ax] show ?thesis by simp
qed

theorem finite_ridge_segment_witness:
  "valid_index [(0, 0), (2, 0), (2, 3) :: real point] 2
   \<and> valid_index [(0, 0), (2, 0), (2, 3) :: real point] 1
   \<and> render [(0, 0), (2, 0), (2, 3) :: real point] [[0, 1]] = Inr [((0, 0), (2, 0))]
   \<and> render [(0, 0), (2, 0), (2, 3) :: real point] [[-1, 0], [0, 2]] = Inr [((0, 0), (2, 3))]
   \<and> plot_edge [(0, 0), (2, 0), (2, 3) :: real point] [2, 1] [] = Inr [((2, 3), (2, 0))]
   \<and> render [(0, 0), (2, 0), (2, 3) :: real point] ([[0, 1]] @ [2, 1] # [[-1, 0], [0, 2]])
       = Inr [((0, 0), (2, 0)), ((2, 3), (2, 0)), ((0, 0), (2, 3))]"
proof -
  have v: "valid_index [(0, 0), (2, 0), (2, 3) :: real point] 2"
    "valid_index [(0, 0), (2, 0), (2, 3) :: real point] 1"
    by (simp_all add: valid_index_def)
  have r1: "render [(0, 0), (2, 0), (2, 3) :: real point] [[0, 1]] = Inr [((0, 0), (2, 0))]"
    by (simp add: render_def plot_edge_def getitem_def np_getitem_def plot_def)
  have r2: "render [(0, 0), (2, 0), (2, 3) :: real point] [[-1, 0], [0, 2]]
      = Inr [((0, 0), (2, 3))]"
    by (simp add: render_def plot_edge_def getitem_def np_getitem_def plot_def)
  show ?thesis
    using v r1 r2 finite_ridge_segment [OF v r1 r2, of "[]"] by simp
qed

text \<open>
  C4 (as amended). When a ridge \<open>(i, j)\<close> of the ridge list holds no sentinel and \<open>i\<close> or \<open>j\<close>
  lies outside \<open>-|V| \<le> index < |V|\<close>, the loop fails; it neither clamps nor skips. The
  iteration on that ridge raises the exception of the first of its indices that is out of
  bounds: \<open>OverflowError\<close> for \<open>2^63 \<le> index < 2^64\<close>, \<open>IndexError\<close> otherwise. The loop fails
  with \<open>IndexError\<close> when no index of the ridge list lies in \<open>2^63 \<le> index < 2^64\<close>. So a ridge
  list with a ridge free of the sentinel fails on the empty vertex set, and the vertex set
  \<open>[(0,0)]\<close> with the ridge list \<open>[(0,5)]\<close> fails with \<open>IndexError\<close>.
\<close>

theorem out_of_bounds_index_fails:
  assumes "[i, j] \<in> set R" and "i \<noteq> -1" and "j \<noteq> -1"
    and "out_of_bounds (V :: 'a point list) i \<or> out_of_bounds V j"
  shows "(\<exists>e. render V R = Inl e)
     \<and> ((\<forall>r \<in> set R. \<forall>k \<in> set r. \<not> overflows k) \<longrightarrow> render V R = Inl IndexError)
     \<and> plot_edge V [i, j] ax = Inl (if out_of_bounds V i then np_error i else np_error j)
     \<and> (\<exists>e. render ([] :: 'a point list) R = Inl e)
     \<and> ((\<forall>r \<in> set R. \<forall>k \<in> set r. \<not> overflows k)
          \<longrightarrow> render ([] :: 'a point list) R = Inl IndexError)
     \<and> render [(0, 0) :: real point] [[0, 5]] = Inl IndexError"
proof -
  from assms have bad: "raises V [i, j]" by (auto simp add: raises_def)
  with assms(1) have some: "\<exists>r \<in> set R. raises V r" by blast
  then have fails: "\<exists>e. render V R = Inl e"
    unfolding render_def by (rule plot_ridges_raises)
  from some have index: "(\<forall>r \<in> set R. \<forall>k \<in> set r. \<not> overflows k) \<longrightarrow> render V R = Inl IndexError"
    unfolding render_def by (blast intro: plot_ridges_index_error)
  from bad have "plot_edge V [i, j] ax = Inl (edge_error V [i, j])"
    by (rule plot_edge_raises)
  with assms(4)
  have one: "plot_edge V [i, j] ax = Inl (if out_of_bounds V i then np_error i else np_error j)"
    by (auto simp add: edge_error_def)
  from assms(2,3) have "raises ([] :: 'a point list) [i, j]"
    by (auto simp add: raises_def out_of_bounds_def)
  with assms(1) have none: "\<exists>r \<in> set R. raises ([] :: 'a point list) r" by blast
  then have fails_empty: "\<exists>e. render ([] :: 'a point list) R = Inl e"
    unfolding render_def by (rule plot_ridges_raises)
  from none have index_empty: "(\<forall>r \<in> set R. \<forall>k \<in> set r. \<not> overflows k)
      \<longrightarrow> render ([] :: 'a point list) R = Inl IndexError"
    unfolding render_def by (blast intro: plot_ridges_index_error)
  have scenario: "render [(0, 0) :: real point] [[0, 5]] = Inl IndexError"
    by (simp add: render_def plot_edge_def getitem_def np_getitem_def)
  from fails index one fails_empty index_empty scenario show ?thesis by blast
qed

theorem out_of_bounds_index_fails_witness:
  "[1, -3] \<in> set [[0, 1], [1, -3], [1, 0]] \<and> (1 :: int) \<noteq> -1 \<and> (-3 :: int) \<noteq> -1
   \<and> out_of_bounds [(0, 0), (2, 0) :: real point] (-3)
   \<and> \<not> overflows 0 \<and> \<not> overflows 1 \<and> \<not> overflows (-3)
   \<and> render [(0, 0), (2, 0) :: real point] [[0, 1], [1, -3], [1, 0]] = Inl IndexError
   \<and> plot_edge [(0, 0), (2, 0) :: real point] [1, -3] [] = Inl IndexError
   \<and> render ([] :: real point list) [[0, 1], [1, -3], [1, 0]] = Inl IndexError"
  using out_of_bounds_index_fails
    [of 1 "-3" "[[0, 1], [1, -3], [1, 0]]" "[(0, 0), (2, 0) :: real point]" "[]"]
  by (simp add: out_of_bounds_def overflows_def np_error_def)

text \<open>
  C4 as stated fails. The index \<open>-2\<close> is not the sentinel and is outside \<open>0 \<le> index < 2\<close>,
  yet the loop draws the ridge \<open>(0, -2)\<close>, reading vertex \<open>0\<close> for \<open>-2\<close>; the ridge \<open>(-1, 5)\<close>
  holds the invalid non-sentinel index \<open>5\<close>, yet it is skipped without error; and the
  invalid index \<open>2^63\<close> makes the loop fail with \<open>OverflowError\<close>, which is no index error.
\<close>

theorem out_of_range_counterexample:
  "(-2 :: int) \<noteq> -1 \<and> \<not> valid_index [(0, 0), (2, 0) :: real point] (-2)
   \<and> render [(0, 0), (2, 0) :: real point] [[0, -2]] = Inr [((0, 0), (0, 0))]
   \<and> (5 :: int) \<noteq> -1 \<and> \<not> valid_index [(0, 0) :: real point] 5
   \<and> render [(0, 0) :: real point] [[-1, 5]] = Inr []
   \<and> (2 ^ 63 :: int) \<noteq> -1 \<and> \<not> valid_index [(0, 0) :: real point] (2 ^ 63)
   \<and> render [(0, 0) :: real point] [[0, 2 ^ 63]] = Inl OverflowError"
  by (simp add: valid_index_def render_def plot_edge_def getitem_def np_getitem_def plot_def)

text \<open>
  C5 (as amended). A ridge with fewer than two entries, none of them the sentinel, makes
  the loop fail. The iteration on it raises \<open>IndexError\<close>, or, when its one entry is out of
  bounds, the exception of that entry, which the array raises before the missing second
  entry is read: \<open>OverflowError\<close> for \<open>2^63 \<le> index < 2^64\<close>. The loop fails with \<open>IndexError\<close>
  when no index of the ridge list lies in \<open>2^63 \<le> index < 2^64\<close>. A ridge with more than two
  entries, none of them the sentinel, is treated as the pair of its first two entries.
\<close>

theorem short_ridge_fails:
  assumes "r \<in> set R" and "-1 \<notin> set r" and "length r < 2"
    and "-1 \<notin> set (i # j # more)"
  shows "(\<exists>e. render V R = Inl e)
     \<and> ((\<forall>r \<in> set R. \<forall>k \<in> set r. \<not> overflows k) \<longrightarrow> render V R = Inl IndexError)
     \<and> plot_edge V r ax
         = Inl (if r \<noteq> [] \<and> out_of_bounds V (r ! 0) then np_error (r ! 0) else IndexError)
     \<and> plot_edge V (i # j # more) ax = plot_edge V [i, j] ax"
proof -
  from assms(2,3) have bad: "raises V r" by (simp add: raises_def)
  with assms(1) have some: "\<exists>r \<in> set R. raises V r" by blast
  then have fails: "\<exists>e. render V R = Inl e"
    unfolding render_def by (rule plot_ridges_raises)
  from some have index: "(\<forall>r \<in> set R. \<forall>k \<in> set r. \<not> overflows k) \<longrightarrow> render V R = Inl IndexError"
    unfolding render_def by (blast intro: plot_ridges_index_error)
  from bad have "plot_edge V r ax = Inl (edge_error V r)"
    by (rule plot_edge_raises)
  with assms(3) have one: "plot_edge V r ax
      = Inl (if r \<noteq> [] \<and> out_of_bounds V (r ! 0) then np_error (r ! 0) else IndexError)"
    by (simp add: edge_error_def)
  from assms(4) have long: "plot_edge V (i # j # more) ax = plot_edge V [i, j] ax"
    by (simp add: plot_edge_cases raises_def edge_error_def)
  from fails index one long show ?thesis by blast
qed

theorem short_ridge_fails_witness:
  "[1] \<in> set [[0, 0], [1]] \<and> -1 \<notin> set [1 :: int] \<and> length [1 :: int] < 2
   \<and> -1 \<notin> set [0, 1, 0 :: int]
   \<and> \<not> overflows 0 \<and> \<not> overflows 1
   \<and> render [(0, 0), (2, 0) :: real point] [[0, 0], [1]] = Inl IndexError
   \<and> plot_edge [(0, 0), (2, 0) :: real point] [1] [] = Inl IndexError
   \<and> plot_edge [(0, 0), (2, 0) :: real point] [0, 1, 0] [] = Inr [((0, 0), (2, 0))]"
proof -
  have "plot_edge [(0, 0), (2, 0) :: real point] [0, 1] [] = Inr [((0, 0), (2, 0))]"
    by (simp add: plot_edge_def getitem_def np_getitem_def plot_def)
  then show ?thesis
    using short_ridge_fails
      [of "[1]" "[[0, 0], [1]]" 0 1 "[0]" "[(0, 0), (2, 0) :: real point]" "[]"]
    by (simp add: overflows_def out_of_bounds_def)
qed

text \<open>
  C5 as stated fails. A ridge of three entries is drawn from its first two entries and a
  ridge of one entry that is the sentinel is skipped: the loop returns without any error.
\<close>

theorem malformed_ridge_counterexample:
  "length [0, 1, 2 :: int] \<noteq> 2
   \<and> render [(0, 0), (1, 0), (1, 1) :: real point] [[0, 1, 2]] = Inr [((0, 0), (1, 0))]
   \<and> length [-1 :: int] \<noteq> 2
   \<and> render [(0, 0), (1, 0), (1, 1) :: real point] [[-1]] = Inr []"
  by (simp add: render_def plot_edge_def getitem_def np_getitem_def plot_def)

text \<open>
  C6. The vertex set \<open>[(0,0), (1,0), (1,1)]\<close> with the ridge list \<open>[(0,1), (1,2), (-1,2)]\<close>
  gives the segments \<open>[((0,0),(1,0)), ((1,0),(1,1))]\<close>: the third ridge gives none.
\<close>

theorem render_scenario:
  "render [(0, 0), (1, 0), (1, 1) :: real point] [[0, 1], [1, 2], [-1, 2]]
     = Inr [((0, 0), (1, 0)), ((1, 0), (1, 1))]"
  by (simp add: render_def plot_edge_def getitem_def np_getitem_def plot_def)

text \<open>
  C7. The iteration on a ridge \<open>(i, i)\<close> with a valid index appends the segment of length
  zero from vertex \<open>i\<close> to itself, and the loop on this ridge alone yields that segment;
  the vertex set \<open>[(0,0)]\<close> with the ridge list \<open>[(0,0)]\<close> gives \<open>[((0,0),(0,0))]\<close>.
\<close>

theorem degenerate_ridge_passes:
  assumes "valid_index V i"
  shows "plot_edge V [i, i] ax = Inr (ax @ [(V ! nat i, V ! nat i)])
     \<and> render V [[i, i]] = Inr [(V ! nat i, V ! nat i)]
     \<and> render [(0, 0) :: real point] [[0, 0]] = Inr [((0, 0), (0, 0))]"
proof -
  from assms have step: "plot_edge V [i, i] bx = Inr (bx @ [(V ! nat i, V ! nat i)])" for bx
    using plot_edge_pair [of i i V bx] by (simp add: wrap_valid)
  have "render [(0, 0) :: real point] [[0, 0]] = Inr [((0, 0), (0, 0))]"
    by (simp add: render_def plot_edge_def getitem_def np_getitem_def plot_def)
  with step [of ax] step [of "[]"] show ?thesis by (simp add: render_single)
qed

theorem degenerate_ridge_passes_witness:
  "valid_index [(0, 0), (2, 0), (2, 3) :: real point] 2
   \<and> plot_edge [(0, 0), (2, 0), (2, 3) :: real point] [2, 2] [((0, 0), (2, 0))]
       = Inr [((0, 0), (2, 0)), ((2, 3), (2, 3))]
   \<and> render [(0, 0), (2, 0), (2, 3) :: real point] [[2, 2]] = Inr [((2, 3), (2, 3))]"
  using degenerate_ridge_passes
    [of "[(0, 0), (2, 0), (2, 3) :: real point]" 2 "[((0, 0), (2, 0))]"]
  by (simp add: valid_index_def)

text \<open>
  C8. The segments the loop produces depend on the vertex set and the ridge list alone.
  Whatever lines the axes hold when the loop starts, it fails exactly when the loop on
  empty axes fails, and otherwise leaves the lines it found followed by the same segments:
  no state of an earlier run changes what a later run produces, and the loop changes
  neither of its two inputs.
\<close>

theorem render_independent_of_axes:
  "plot_ridges V R ax = (case render V R of Inl e \<Rightarrow> Inl e | Inr segs \<Rightarrow> Inr (ax @ segs))"
  using plot_ridges_shift [of V R ax "[]"] by (simp add: render_def)

text \<open>
  C9. The loop is one pass over the ridge list and ends on every input. Run one iteration
  per step from empty axes, it has left the loop after at most one step per ridge and one
  more on the exhausted list, in the outcome that \<open>render\<close> gives: it has failed with
  \<open>IndexError\<close> or \<open>OverflowError\<close>, or it has produced a list of segments no longer than the
  ridge list.
\<close>

theorem render_terminates:
  "(step V ^^ Suc (length R)) (Running R [])
     = (case render V R of Inl e \<Rightarrow> Failed e | Inr segs \<Rightarrow> Done segs)
   \<and> (render V R = Inl IndexError \<or> render V R = Inl OverflowError
       \<or> (\<exists>segs. render V R = Inr segs \<and> length segs \<le> length R))"
proof -
  have run: "(step V ^^ Suc (length R)) (Running R [])
      = (case render V R of Inl e \<Rightarrow> Failed e | Inr segs \<Rightarrow> Done segs)"
    unfolding render_def by (rule step_run)
  have "render V R = Inl IndexError \<or> render V R = Inl OverflowError
      \<or> (\<exists>segs. render V R = Inr segs \<and> length segs \<le> length R)"
  proof (cases "render V R")
    case (Inl e)
    then show ?thesis by (cases e) simp_all
  next
    case (Inr segs)
    then have "length segs \<le> length ([] :: 'a segment list) + length R"
      unfolding render_def by (rule plot_ridges_length)
    with Inr show ?thesis by simp
  qed
  with run show ?thesis by simp
qed

text \<open>
  C10 (as amended). Let \<open>d\<close> be a negative index other than \<open>-1\<close> with \<open>-|V| \<le> d\<close>, in a ridge
  whose other entry \<open>k\<close> is not the sentinel and lies within \<open>-|V| \<le> k < |V|\<close>. The iteration
  on this ridge neither fails nor skips it: it appends a segment whose endpoint for \<open>d\<close> is
  the vertex at position \<open>|V| + d\<close>, whether \<open>d\<close> is the first or the second entry.
\<close>

theorem negative_index_from_end:
  assumes "- int (length V) \<le> d" and "d < 0" and "d \<noteq> -1"
    and "k \<noteq> -1" and "- int (length V) \<le> k" and "k < int (length V)"
  shows "plot_edge V [d, k] ax = Inr (ax @ [(V ! nat (int (length V) + d), V ! wrap V k)])
     \<and> plot_edge V [k, d] ax = Inr (ax @ [(V ! wrap V k, V ! nat (int (length V) + d))])"
proof -
  from assms(1,2) have d: "\<not> out_of_bounds V d" "wrap V d = nat (int (length V) + d)"
    by (simp_all add: out_of_bounds_def wrap_def add.commute)
  from assms(5,6) have k: "\<not> out_of_bounds V k"
    by (simp add: out_of_bounds_def)
  from assms(3,4) d(1) k show ?thesis
    using plot_edge_pair [of d k V ax] plot_edge_pair [of k d V ax] by (simp add: d(2))
qed

theorem negative_index_from_end_witness:
  "- int (length [(0, 0), (2, 0), (2, 3) :: real point]) \<le> -2 \<and> (-2 :: int) < 0
   \<and> (-2 :: int) \<noteq> -1 \<and> (0 :: int) \<noteq> -1
   \<and> - int (length [(0, 0), (2, 0), (2, 3) :: real point]) \<le> 0
   \<and> 0 < int (length [(0, 0), (2, 0), (2, 3) :: real point])
   \<and> plot_edge [(0, 0), (2, 0), (2, 3) :: real point] [-2, 0] [] = Inr [((2, 0), (0, 0))]
   \<and> plot_edge [(0, 0), (2, 0), (2, 3) :: real point] [0, -2] [] = Inr [((0, 0), (2, 0))]"
  using negative_index_from_end [of "[(0, 0), (2, 0), (2, 3) :: real point]" "-2" 0 "[]"]
  by (simp add: wrap_def)

text \<open>
  C10 as stated fails. In a vertex set of size two the index \<open>-2\<close> is negative, is not the
  sentinel and is at least \<open>-2\<close>; yet the ridge \<open>(-2, -1)\<close> is skipped, and the ridge
  \<open>(-2, 7)\<close> makes the loop fail.
\<close>

theorem negative_index_counterexample:
  "1 \<le> length [(0, 0), (2, 0) :: real point] \<and> (-2 :: int) \<noteq> -1
   \<and> - int (length [(0, 0), (2, 0) :: real point]) \<le> -2 \<and> (-2 :: int) < 0
   \<and> render [(0, 0), (2, 0) :: real point] [[-2, -1]] = Inr []
   \<and> render [(0, 0), (2, 0) :: real point] [[-2, 7]] = Inl IndexError"
  by (simp add: render_def plot_edge_def getitem_def np_getitem_def plot_def)

end
